theory Spec2Isabelle
  imports Main "HOL-Library.Word"
begin

section \<open>Data model\<close>

text \<open>
  Go's \<open>int64\<close> is a 64-bit word read as two's complement; timestamps are compared
  with the signed order \<open><s\<close>. Go strings are \<open>string\<close>.
\<close>

type_synonym int64 = "64 word"

text \<open>
  Modelled from the spec: the error constructors of package \<open>model\<close> are outside the
  files at hand; the spec has three kinds of error: malformed input, authorization
  failure and backend failure. \<open>model.NewErrBadRequest\<close> and
  \<open>model.NewErrUnauthorized\<close> build the first two; every other Go error the code
  passes on (database driver, \<open>io.ReadAll\<close>, \<open>encoding/json\<close>) is an \<open>ErrInternal\<close>.
\<close>

datatype error = ErrBadRequest string | ErrUnauthorized string | ErrInternal string

text \<open>
  Modelled from the spec: \<open>model.User\<close> is declared outside the files at hand; the spec
  lists username, email, password hash and timestamps. The handlers and the
  permission service read and write the four fields below.
\<close>

record User =
  ID :: string
  Username :: string
  Email :: string
  CreateAt :: int64

text \<open>\<open>mmModel.Permission\<close>: the permission service compares permissions by \<open>Id\<close>.\<close>

record Permission =
  Id :: string

text \<open>
  Modelled from the spec: the constant \<open>model.PermissionManageSystem\<close> is declared
  outside the files at hand; the spec names the capability "manage system". No result
  below depends on the value of its \<open>Id\<close>.
\<close>

definition PermissionManageSystem :: Permission where
  "PermissionManageSystem = \<lparr>Id = ''manage_system''\<rparr>"

section \<open>localpermissions.Service\<close>

text \<open>
  The service keeps the cached first user. Its \<open>store\<close> is consulted through
  \<open>GetAllUsers\<close> only, so \<open>HasPermissionTo\<close> takes what that call returns at the time
  of the request (an error, or the stored users in the order the store lists them).
  The permission pointer is taken as non-nil: every caller passes a package-level
  constant.
\<close>

record Service =
  firstUserID :: string
  firstUserDone :: bool

definition New :: Service where
  "New = \<lparr>firstUserID = [], firstUserDone = False\<rparr>"

text \<open>
  The loop \<open>for _, u := range users\<close> with its variable \<open>oldestUser\<close> (\<open>nil\<close> is
  \<open>None\<close>).
\<close>

fun oldest_loop :: "User option \<Rightarrow> User list \<Rightarrow> User option" where
  "oldest_loop oldestUser [] = oldestUser"
| "oldest_loop oldestUser (u # users) =
     oldest_loop
       (case oldestUser of
          None \<Rightarrow> Some u
        | Some ou \<Rightarrow> if User.CreateAt u <s User.CreateAt ou then Some u else Some ou)
       users"

definition HasPermissionTo ::
  "Service \<Rightarrow> (error + User list) \<Rightarrow> string \<Rightarrow> Permission \<Rightarrow> bool \<times> Service" where
  "HasPermissionTo s GetAllUsers userID permission =
     (if Id permission = Id PermissionManageSystem then
        let s1 =
          (if \<not> firstUserDone s then
             let s0 =
               (case GetAllUsers of
                  Inl err \<Rightarrow> s
                | Inr users \<Rightarrow>
                    if length users > 0 then
                      (case oldest_loop None users of
                         None \<Rightarrow> s
                       | Some oldestUser \<Rightarrow> s\<lparr>firstUserID := User.ID oldestUser\<rparr>)
                    else s)
             in s0\<lparr>firstUserDone := True\<rparr>
           else s)
        in (userID = firstUserID s1, s1)
      else (False, s))"

section \<open>model.UserNotification\<close>

record UserNotification =
  ID :: string
  TargetUserID :: string
  ActorUserID :: string
  ActorName :: string
  Type :: string
  CardID :: string
  CardTitle :: string
  BoardID :: string
  Read :: bool
  CreateAt :: int64
  UpdateAt :: int64

text \<open>
  \<open>NewUserNotification\<close>; \<open>now\<close> is \<open>time.Now().UnixMilli()\<close> and \<open>newID\<close> is what
  \<open>utils.NewID\<close> returns.
\<close>

definition NewUserNotification ::
  "int64 \<Rightarrow> string \<Rightarrow> string \<Rightarrow> string \<Rightarrow> string \<Rightarrow> string \<Rightarrow> string \<Rightarrow> string \<Rightarrow> string
     \<Rightarrow> UserNotification" where
  "NewUserNotification now newID targetUserID actorUserID actorName notifType cardID cardTitle
     boardID =
     \<lparr>ID = newID, TargetUserID = targetUserID, ActorUserID = actorUserID,
      ActorName = actorName, Type = notifType, CardID = cardID, CardTitle = cardTitle,
      BoardID = boardID, Read = False, CreateAt = now, UpdateAt = now\<rparr>"

section \<open>Logging\<close>

datatype LogLevel = Debug | Warn | Error

datatype Field = String string string | Err error

type_synonym LogLine = "LogLevel \<times> string \<times> Field list"

section \<open>sqlstore: the user\_notifications table\<close>

text \<open>
  The table is the list of its rows. The statements the store builds with squirrel are
  given their SQL meaning by \<open>Exec_insert\<close>, \<open>Exec_update\<close>, \<open>Exec_delete\<close> and
  \<open>QueryRow_count\<close>. The runner \<open>db\<close> says how the driver answers the one statement a
  store function runs: \<open>fault\<close> is the error of \<open>Exec\<close>, \<open>Query\<close> or \<open>Scan\<close> (the
  statement then changes nothing), \<open>RowsAffected_fault\<close> the error of
  \<open>result.RowsAffected()\<close>. The migration declares \<open>PRIMARY KEY (id)\<close>, so an insert
  of an id that is already stored fails; the column length limits depend on the
  backend and are left to \<open>fault\<close>. An \<open>sq.Eq\<close> with several keys is their conjunction.
\<close>

record BaseRunner =
  fault :: "error option"
  RowsAffected_fault :: "error option"

record SQLStore =
  user_notifications :: "UserNotification list"
  logger :: "LogLine list"

definition Exec_insert ::
  "BaseRunner \<Rightarrow> UserNotification \<Rightarrow> UserNotification list \<Rightarrow> error + UserNotification list" where
  "Exec_insert db row rows =
     (case fault db of
        Some err \<Rightarrow> Inl err
      | None \<Rightarrow>
          if ID row \<in> set (map ID rows) then Inl (ErrInternal ''duplicate primary key'')
          else Inr (rows @ [row]))"

definition Exec_update ::
  "BaseRunner \<Rightarrow> (UserNotification \<Rightarrow> bool) \<Rightarrow> (UserNotification \<Rightarrow> UserNotification)
     \<Rightarrow> UserNotification list \<Rightarrow> error + (UserNotification list \<times> nat)" where
  "Exec_update db wh st rows =
     (case fault db of
        Some err \<Rightarrow> Inl err
      | None \<Rightarrow> Inr (map (\<lambda>row. if wh row then st row else row) rows, length (filter wh rows)))"

definition Exec_delete ::
  "BaseRunner \<Rightarrow> (UserNotification \<Rightarrow> bool) \<Rightarrow> UserNotification list
     \<Rightarrow> error + UserNotification list" where
  "Exec_delete db wh rows =
     (case fault db of
        Some err \<Rightarrow> Inl err
      | None \<Rightarrow> Inr (filter (\<lambda>row. \<not> wh row) rows))"

definition QueryRow_count ::
  "BaseRunner \<Rightarrow> (UserNotification \<Rightarrow> bool) \<Rightarrow> UserNotification list \<Rightarrow> error + int" where
  "QueryRow_count db wh rows =
     (case fault db of
        Some err \<Rightarrow> Inl err
      | None \<Rightarrow> Inr (int (length (filter wh rows))))"

definition RowsAffected :: "BaseRunner \<Rightarrow> nat \<Rightarrow> error + int" where
  "RowsAffected db result =
     (case RowsAffected_fault db of Some err \<Rightarrow> Inl err | None \<Rightarrow> Inr (int result))"

text \<open>
  \<open>createUserNotification\<close> overwrites \<open>ID\<close>, \<open>CreateAt\<close> and \<open>UpdateAt\<close> of the
  notification it is given and inserts all eleven columns, \<open>is_read\<close> from
  \<open>notification.Read\<close>. \<open>now\<close> is \<open>utils.GetMillis()\<close>, \<open>newID\<close> is
  \<open>utils.NewID(utils.IDTypeNone)\<close>.
\<close>

definition createUserNotification ::
  "SQLStore \<Rightarrow> BaseRunner \<Rightarrow> int64 \<Rightarrow> string \<Rightarrow> UserNotification
     \<Rightarrow> (error + UserNotification) \<times> SQLStore" where
  "createUserNotification s db now newID notification0 =
     (let notification = notification0\<lparr>ID := newID, CreateAt := now, UpdateAt := now\<rparr>
      in case Exec_insert db notification (user_notifications s) of
           Inl err \<Rightarrow>
             (Inl err,
              s\<lparr>logger := logger s @
                   [(Error, ''Cannot create user notification'',
                     [String ''target_user_id'' (TargetUserID notification), Err err])]\<rparr>)
         | Inr rows \<Rightarrow> (Inr notification, s\<lparr>user_notifications := rows\<rparr>))"

definition getUnreadNotificationCount ::
  "SQLStore \<Rightarrow> BaseRunner \<Rightarrow> string \<Rightarrow> error + int" where
  "getUnreadNotificationCount s db userID =
     QueryRow_count db (\<lambda>row. TargetUserID row = userID \<and> Read row = False)
       (user_notifications s)"

definition markNotificationAsRead ::
  "SQLStore \<Rightarrow> BaseRunner \<Rightarrow> int64 \<Rightarrow> string \<Rightarrow> string \<Rightarrow> error option \<times> SQLStore" where
  "markNotificationAsRead s db now notificationID userID =
     (case Exec_update db (\<lambda>row. ID row = notificationID \<and> TargetUserID row = userID)
             (\<lambda>row. row\<lparr>Read := True, UpdateAt := now\<rparr>) (user_notifications s) of
        Inl err \<Rightarrow> (Some err, s)
      | Inr (rows, result) \<Rightarrow>
          let s1 = s\<lparr>user_notifications := rows\<rparr>
          in case RowsAffected db result of
               Inl err \<Rightarrow> (Some err, s1)
             | Inr count \<Rightarrow>
                 (None,
                  if count = 0 then
                    s1\<lparr>logger := logger s1 @
                          [(Warn, ''notification not found or already read'',
                            [String ''notification_id'' notificationID,
                             String ''user_id'' userID])]\<rparr>
                  else s1))"

definition markAllNotificationsAsRead ::
  "SQLStore \<Rightarrow> BaseRunner \<Rightarrow> int64 \<Rightarrow> string \<Rightarrow> error option \<times> SQLStore" where
  "markAllNotificationsAsRead s db now userID =
     (case Exec_update db (\<lambda>row. TargetUserID row = userID \<and> Read row = False)
             (\<lambda>row. row\<lparr>Read := True, UpdateAt := now\<rparr>) (user_notifications s) of
        Inl err \<Rightarrow> (Some err, s)
      | Inr (rows, result) \<Rightarrow> (None, s\<lparr>user_notifications := rows\<rparr>))"

definition deleteUserNotification ::
  "SQLStore \<Rightarrow> BaseRunner \<Rightarrow> string \<Rightarrow> string \<Rightarrow> error option \<times> SQLStore" where
  "deleteUserNotification s db notificationID userID =
     (case Exec_delete db (\<lambda>row. ID row = notificationID \<and> TargetUserID row = userID)
             (user_notifications s) of
        Inl err \<Rightarrow> (Some err, s)
      | Inr rows \<Rightarrow> (None, s\<lparr>user_notifications := rows\<rparr>))"

section \<open>The application layer\<close>

text \<open>
  The \<open>App\<close> holds the SQL store; everything it reaches that lies outside the files at
  hand (the users subsystem and the WebSocket adapter) is a state \<open>outside\<close> of an
  arbitrary type \<open>'x\<close>. The operations on it are parameters, collected in \<open>Env\<close>
  together with the inputs of one request that the code draws from its environment:
  the database runner, the clock \<open>utils.GetMillis()\<close> and the identifier
  \<open>utils.NewID\<close> returns. \<open>BroadcastUserNotification\<close> has no result, as the Go
  method has none. \<open>store_GetAllUsers\<close> is the read the permission service makes.
  \<open>json_Marshal\<close> is \<open>json.Marshal\<close> on the values the handlers encode.
\<close>

datatype gvalue = VNotification UserNotification | VUser User | VUsers "User list"

record 'x App =
  store :: SQLStore
  outside :: 'x

record 'x Env =
  db :: BaseRunner
  GetMillis :: int64
  NewID :: string
  BroadcastUserNotification :: "string \<Rightarrow> UserNotification \<Rightarrow> 'x \<Rightarrow> 'x"
  GetAllUsers :: "'x \<Rightarrow> (error + User list) \<times> 'x"
  GetUser :: "string \<Rightarrow> 'x \<Rightarrow> (error + User) \<times> 'x"
  UpdateUser :: "User \<Rightarrow> 'x \<Rightarrow> (error + User) \<times> 'x"
  UpdateUserPasswordByID :: "string \<Rightarrow> string \<Rightarrow> 'x \<Rightarrow> error option \<times> 'x"
  UpdateUserPassword :: "string \<Rightarrow> string \<Rightarrow> 'x \<Rightarrow> error option \<times> 'x"
  DeleteUser :: "string \<Rightarrow> 'x \<Rightarrow> error option \<times> 'x"
  store_GetAllUsers :: "'x \<Rightarrow> error + User list"
  json_Marshal :: "gvalue \<Rightarrow> error + string"

text \<open>
  The methods of \<open>App\<close> on notifications forward to the store; the store's exported
  methods pass its own runner to the unexported functions above.
\<close>

definition CreateUserNotification ::
  "'x Env \<Rightarrow> 'x App \<Rightarrow> UserNotification \<Rightarrow> (error + UserNotification) \<times> 'x App" where
  "CreateUserNotification e a notification =
     (case createUserNotification (store a) (db e) (GetMillis e) (NewID e) notification of
        (res, st) \<Rightarrow> (res, a\<lparr>store := st\<rparr>))"

definition GetUnreadNotificationCount :: "'x Env \<Rightarrow> 'x App \<Rightarrow> string \<Rightarrow> error + int" where
  "GetUnreadNotificationCount e a userID = getUnreadNotificationCount (store a) (db e) userID"

definition MarkNotificationAsRead ::
  "'x Env \<Rightarrow> 'x App \<Rightarrow> string \<Rightarrow> string \<Rightarrow> error option \<times> 'x App" where
  "MarkNotificationAsRead e a notificationID userID =
     (case markNotificationAsRead (store a) (db e) (GetMillis e) notificationID userID of
        (err, st) \<Rightarrow> (err, a\<lparr>store := st\<rparr>))"

definition MarkAllNotificationsAsRead ::
  "'x Env \<Rightarrow> 'x App \<Rightarrow> string \<Rightarrow> error option \<times> 'x App" where
  "MarkAllNotificationsAsRead e a userID =
     (case markAllNotificationsAsRead (store a) (db e) (GetMillis e) userID of
        (err, st) \<Rightarrow> (err, a\<lparr>store := st\<rparr>))"

definition DeleteUserNotification ::
  "'x Env \<Rightarrow> 'x App \<Rightarrow> string \<Rightarrow> string \<Rightarrow> error option \<times> 'x App" where
  "DeleteUserNotification e a notificationID userID =
     (case deleteUserNotification (store a) (db e) notificationID userID of
        (err, st) \<Rightarrow> (err, a\<lparr>store := st\<rparr>))"

text \<open>
  \<open>CreateAndBroadcastNotification\<close>. The store fills in the notification it was handed
  and returns that same pointer, so \<open>notification.TargetUserID\<close> read after the insert
  is \<open>TargetUserID created\<close>.
\<close>

definition CreateAndBroadcastNotification ::
  "'x Env \<Rightarrow> 'x App \<Rightarrow> UserNotification \<Rightarrow> (error + UserNotification) \<times> 'x App" where
  "CreateAndBroadcastNotification e a notification =
     (case CreateUserNotification e a notification of
        (Inl err, a1) \<Rightarrow> (Inl err, a1)
      | (Inr created, a1) \<Rightarrow>
          (Inr created,
           a1\<lparr>outside :=
                BroadcastUserNotification e (TargetUserID created) created (outside a1)\<rparr>))"

section \<open>The REST layer\<close>

text \<open>
  Modelled from the spec: \<open>sessionRequired\<close> and \<open>getUserID\<close> are outside the files at
  hand; by the spec a bearer token must map to a live session before a handler runs.
  So the request carries a session: \<open>Session_UserID\<close> is \<open>session.UserID\<close>, which is
  also what \<open>getUserID(r)\<close> returns. \<open>Vars\<close> is \<open>mux.Vars(r)\<close> (a missing key reads
  as the empty string). The body is kept as what \<open>io.ReadAll\<close> and \<open>json.Unmarshal\<close>
  make of it: unreadable, read but malformed, or decoded into the handler's struct.
\<close>

datatype 'b Body = Unreadable error | Malformed error | Decodes 'b

record 'b Request =
  Session_UserID :: string
  Vars :: "string \<Rightarrow> string"
  Body :: "'b Body"

definition getUserID :: "'b Request \<Rightarrow> string" where
  "getUserID r = Session_UserID r"

text \<open>
  Modelled from the spec: \<open>errorResponse\<close>, \<open>jsonStringResponse\<close> and
  \<open>jsonBytesResponse\<close> are outside the files at hand; by the spec the output is a JSON
  body on success and a JSON error envelope with a message on failure. The error
  response keeps the error it was given; the other two write a status and a body.
\<close>

datatype Response = ErrorResponse error | JSONResponse nat string

definition errorResponse :: "error \<Rightarrow> Response" where
  "errorResponse err = ErrorResponse err"

definition jsonStringResponse :: "nat \<Rightarrow> string \<Rightarrow> Response" where
  "jsonStringResponse code message = JSONResponse code message"

definition jsonBytesResponse :: "nat \<Rightarrow> string \<Rightarrow> Response" where
  "jsonBytesResponse code json = JSONResponse code json"

text \<open>
  Modelled from the spec: the audit package and \<open>makeAuditRecord\<close> are outside the
  files at hand, and the spec is silent on them; they are modelled from their use in
  the handlers. A record has an event name, a status that starts as \<open>audit.Fail\<close> and
  that \<open>auditRec.Success()\<close> sets, and the metadata added with \<open>AddMeta\<close>.
\<close>

datatype AuditStatus = Fail | Success

datatype AuditLevel = LevelAuth | LevelModify | LevelRead

record AuditRecord =
  Event :: string
  Status :: AuditStatus
  Meta :: "(string \<times> string) list"

definition makeAuditRecord :: "string \<Rightarrow> AuditStatus \<Rightarrow> AuditRecord" where
  "makeAuditRecord event initialStatus = \<lparr>Event = event, Status = initialStatus, Meta = []\<rparr>"

definition AddMeta :: "string \<Rightarrow> string \<Rightarrow> AuditRecord \<Rightarrow> AuditRecord" where
  "AddMeta name val rec = rec\<lparr>Meta := Meta rec @ [(name, val)]\<rparr>"

definition Record_Success :: "AuditRecord \<Rightarrow> AuditRecord" where
  "Record_Success rec = rec\<lparr>Status := Success\<rparr>"

record 'x API =
  app :: "'x App"
  permissions :: Service
  audit :: "(AuditLevel \<times> AuditRecord) list"
  logger :: "LogLine list"

text \<open>The deferred \<open>a.audit.LogRecord(level, auditRec)\<close> runs when the handler returns.\<close>

definition LogRecord :: "AuditLevel \<Rightarrow> AuditRecord \<Rightarrow> 'x API \<Rightarrow> 'x API" where
  "LogRecord level rec a = a\<lparr>audit := audit a @ [(level, rec)]\<rparr>"

definition logger_Debug :: "string \<Rightarrow> Field list \<Rightarrow> 'x API \<Rightarrow> 'x API" where
  "logger_Debug msg flds a = a\<lparr>API.logger := API.logger a @ [(Debug, msg, flds)]\<rparr>"

definition set_outside :: "'x \<Rightarrow> 'x API \<Rightarrow> 'x API" where
  "set_outside x a = a\<lparr>app := (app a)\<lparr>outside := x\<rparr>\<rparr>"

subsection \<open>Notification routes\<close>

definition handleCreateNotification ::
  "'x Env \<Rightarrow> 'x API \<Rightarrow> UserNotification Request \<Rightarrow> Response \<times> 'x API" where
  "handleCreateNotification e a r =
     (case Body r of
        Unreadable err \<Rightarrow> (errorResponse err, a)
      | Malformed err \<Rightarrow> (errorResponse err, a)
      | Decodes notification \<Rightarrow>
          let auditRec = makeAuditRecord ''createNotification'' Fail
          in case CreateAndBroadcastNotification e (app a) notification of
               (Inl err, app1) \<Rightarrow>
                 (errorResponse err, LogRecord LevelModify auditRec (a\<lparr>app := app1\<rparr>))
             | (Inr created, app1) \<Rightarrow>
                 let a1 = logger_Debug ''CreateNotification''
                            [String ''targetUserID'' (TargetUserID created),
                             String ''type'' (Type created)]
                            (a\<lparr>app := app1\<rparr>)
                 in case json_Marshal e (VNotification created) of
                      Inl err \<Rightarrow> (errorResponse err, LogRecord LevelModify auditRec a1)
                    | Inr data \<Rightarrow>
                        (jsonBytesResponse 200 data,
                         LogRecord LevelModify (Record_Success auditRec) a1))"

definition handleMarkAsRead :: "'x Env \<Rightarrow> 'x API \<Rightarrow> 'b Request \<Rightarrow> Response \<times> 'x API" where
  "handleMarkAsRead e a r =
     (let notificationID = Vars r ''notificationID'';
          userID = getUserID r;
          auditRec = makeAuditRecord ''markNotificationAsRead'' Fail
      in case MarkNotificationAsRead e (app a) notificationID userID of
           (Some err, app1) \<Rightarrow>
             (errorResponse err, LogRecord LevelModify auditRec (a\<lparr>app := app1\<rparr>))
         | (None, app1) \<Rightarrow>
             (jsonStringResponse 200 ''{}'',
              LogRecord LevelModify (Record_Success auditRec) (a\<lparr>app := app1\<rparr>)))"

definition handleMarkAllAsRead :: "'x Env \<Rightarrow> 'x API \<Rightarrow> 'b Request \<Rightarrow> Response \<times> 'x API" where
  "handleMarkAllAsRead e a r =
     (let userID = getUserID r;
          auditRec = makeAuditRecord ''markAllNotificationsAsRead'' Fail
      in case MarkAllNotificationsAsRead e (app a) userID of
           (Some err, app1) \<Rightarrow>
             (errorResponse err, LogRecord LevelModify auditRec (a\<lparr>app := app1\<rparr>))
         | (None, app1) \<Rightarrow>
             (jsonStringResponse 200 ''{}'',
              LogRecord LevelModify (Record_Success auditRec) (a\<lparr>app := app1\<rparr>)))"

definition handleDeleteNotification ::
  "'x Env \<Rightarrow> 'x API \<Rightarrow> 'b Request \<Rightarrow> Response \<times> 'x API" where
  "handleDeleteNotification e a r =
     (let notificationID = Vars r ''notificationID'';
          userID = getUserID r;
          auditRec = makeAuditRecord ''deleteNotification'' Fail
      in case DeleteUserNotification e (app a) notificationID userID of
           (Some err, app1) \<Rightarrow>
             (errorResponse err, LogRecord LevelModify auditRec (a\<lparr>app := app1\<rparr>))
         | (None, app1) \<Rightarrow>
             (jsonStringResponse 200 ''{}'',
              LogRecord LevelModify (Record_Success auditRec) (a\<lparr>app := app1\<rparr>)))"

subsection \<open>Admin routes\<close>

record AdminSetPasswordData =
  Password :: string

record AdminUpdateUserData =
  Username :: string
  Email :: string
  Password :: string

text \<open>
  Go's \<open>strings.Contains(s, substr)\<close>: some offset of \<open>s\<close> starts a copy of \<open>substr\<close>.
\<close>

fun strings_Contains :: "string \<Rightarrow> string \<Rightarrow> bool" where
  "strings_Contains [] substr = (substr = [])"
| "strings_Contains (c # s) substr =
     (take (length substr) (c # s) = substr \<or> strings_Contains s substr)"

definition handleAdminSetPassword ::
  "'x Env \<Rightarrow> 'x API \<Rightarrow> AdminSetPasswordData Request \<Rightarrow> Response \<times> 'x API" where
  "handleAdminSetPassword e a r =
     (let username = Vars r ''username''
      in case Body r of
           Unreadable err \<Rightarrow> (errorResponse err, a)
         | Malformed err \<Rightarrow> (errorResponse err, a)
         | Decodes requestData \<Rightarrow>
             let auditRec = AddMeta ''username'' username
                              (makeAuditRecord ''adminSetPassword'' Fail)
             in if \<not> strings_Contains (AdminSetPasswordData.Password requestData) [] then
                  (errorResponse (ErrBadRequest ''password is required''),
                   LogRecord LevelAuth auditRec a)
                else
                  case UpdateUserPassword e username
                         (AdminSetPasswordData.Password requestData) (outside (app a)) of
                    (Some err, x1) \<Rightarrow>
                      (errorResponse err, LogRecord LevelAuth auditRec (set_outside x1 a))
                  | (None, x1) \<Rightarrow>
                      (jsonStringResponse 200 ''{}'',
                       LogRecord LevelAuth (Record_Success auditRec)
                         (logger_Debug ''AdminSetPassword, username: %s''
                            [String ''username'' username] (set_outside x1 a))))"

text \<open>
  The four routes under \<open>/admin/users\<close> open with the same check; \<open>admin_check\<close> is
  that call of \<open>a.permissions.HasPermissionTo(session.UserID,
  model.PermissionManageSystem)\<close>, returning the answer and the API with the service's
  cache as the call leaves it.
\<close>

definition admin_check :: "'x Env \<Rightarrow> 'x API \<Rightarrow> 'b Request \<Rightarrow> bool \<times> 'x API" where
  "admin_check e a r =
     (case HasPermissionTo (permissions a) (store_GetAllUsers e (outside (app a)))
             (Session_UserID r) PermissionManageSystem of
        (ok, svc) \<Rightarrow> (ok, a\<lparr>permissions := svc\<rparr>))"

definition handleAdminGetAllUsers ::
  "'x Env \<Rightarrow> 'x API \<Rightarrow> 'b Request \<Rightarrow> Response \<times> 'x API" where
  "handleAdminGetAllUsers e a0 r =
     (case admin_check e a0 r of
        (False, a) \<Rightarrow>
          (errorResponse (ErrUnauthorized ''not authorized to access admin panel''), a)
      | (True, a) \<Rightarrow>
          let auditRec = makeAuditRecord ''adminGetAllUsers'' Fail
          in case GetAllUsers e (outside (app a)) of
               (Inl err, x1) \<Rightarrow>
                 (errorResponse err, LogRecord LevelAuth auditRec (set_outside x1 a))
             | (Inr users, x1) \<Rightarrow>
                 (case json_Marshal e (VUsers users) of
                    Inl err \<Rightarrow>
                      (errorResponse err, LogRecord LevelAuth auditRec (set_outside x1 a))
                  | Inr data \<Rightarrow>
                      (jsonBytesResponse 200 data,
                       LogRecord LevelAuth (Record_Success auditRec) (set_outside x1 a))))"

definition handleAdminGetUser ::
  "'x Env \<Rightarrow> 'x API \<Rightarrow> 'b Request \<Rightarrow> Response \<times> 'x API" where
  "handleAdminGetUser e a0 r =
     (case admin_check e a0 r of
        (False, a) \<Rightarrow>
          (errorResponse (ErrUnauthorized ''not authorized to access admin panel''), a)
      | (True, a) \<Rightarrow>
          let userID = Vars r ''userID'';
              auditRec = AddMeta ''userID'' userID (makeAuditRecord ''adminGetUser'' Fail)
          in case GetUser e userID (outside (app a)) of
               (Inl err, x1) \<Rightarrow>
                 (errorResponse err, LogRecord LevelAuth auditRec (set_outside x1 a))
             | (Inr user, x1) \<Rightarrow>
                 (case json_Marshal e (VUser user) of
                    Inl err \<Rightarrow>
                      (errorResponse err, LogRecord LevelAuth auditRec (set_outside x1 a))
                  | Inr data \<Rightarrow>
                      (jsonBytesResponse 200 data,
                       LogRecord LevelAuth (Record_Success auditRec) (set_outside x1 a))))"

definition handleAdminUpdateUser ::
  "'x Env \<Rightarrow> 'x API \<Rightarrow> AdminUpdateUserData Request \<Rightarrow> Response \<times> 'x API" where
  "handleAdminUpdateUser e a0 r =
     (case admin_check e a0 r of
        (False, a) \<Rightarrow>
          (errorResponse (ErrUnauthorized ''not authorized to access admin panel''), a)
      | (True, a) \<Rightarrow>
          let userID = Vars r ''userID''
          in case Body r of
               Unreadable err \<Rightarrow> (errorResponse err, a)
             | Malformed err \<Rightarrow> (errorResponse err, a)
             | Decodes updateData \<Rightarrow>
                 let auditRec = AddMeta ''userID'' userID
                                  (makeAuditRecord ''adminUpdateUser'' Fail)
                 in case GetUser e userID (outside (app a)) of
                      (Inl err, x1) \<Rightarrow>
                        (errorResponse err, LogRecord LevelAuth auditRec (set_outside x1 a))
                    | (Inr user0, x1) \<Rightarrow>
                        let user1 =
                              (if AdminUpdateUserData.Username updateData \<noteq> [] then
                                 user0\<lparr>User.Username :=
                                          AdminUpdateUserData.Username updateData\<rparr>
                               else user0);
                            user =
                              (if AdminUpdateUserData.Email updateData \<noteq> [] then
                                 user1\<lparr>User.Email := AdminUpdateUserData.Email updateData\<rparr>
                               else user1)
                        in case UpdateUser e user x1 of
                             (Inl err, x2) \<Rightarrow>
                               (errorResponse err,
                                LogRecord LevelAuth auditRec (set_outside x2 a))
                           | (Inr updatedUser, x2) \<Rightarrow>
                               (case (if AdminUpdateUserData.Password updateData \<noteq> [] then
                                        UpdateUserPasswordByID e userID
                                          (AdminUpdateUserData.Password updateData) x2
                                      else (None, x2)) of
                                  (Some err, x3) \<Rightarrow>
                                    (errorResponse err,
                                     LogRecord LevelAuth auditRec (set_outside x3 a))
                                | (None, x3) \<Rightarrow>
                                    let a1 = logger_Debug ''AdminUpdateUser, userID: %s''
                                               [String ''userID'' userID] (set_outside x3 a)
                                    in case json_Marshal e (VUser updatedUser) of
                                         Inl err \<Rightarrow>
                                           (errorResponse err,
                                            LogRecord LevelAuth auditRec a1)
                                       | Inr data \<Rightarrow>
                                           (jsonBytesResponse 200 data,
                                            LogRecord LevelAuth
                                              (Record_Success auditRec) a1)))"

definition handleAdminDeleteUser ::
  "'x Env \<Rightarrow> 'x API \<Rightarrow> 'b Request \<Rightarrow> Response \<times> 'x API" where
  "handleAdminDeleteUser e a0 r =
     (case admin_check e a0 r of
        (False, a) \<Rightarrow>
          (errorResponse (ErrUnauthorized ''not authorized to access admin panel''), a)
      | (True, a) \<Rightarrow>
          let userID = Vars r ''userID'';
              auditRec = AddMeta ''userID'' userID (makeAuditRecord ''adminDeleteUser'' Fail)
          in if userID = Session_UserID r then
               (errorResponse (ErrBadRequest ''cannot delete yourself''),
                LogRecord LevelAuth auditRec a)
             else
               case DeleteUser e userID (outside (app a)) of
                 (Some err, x1) \<Rightarrow>
                   (errorResponse err, LogRecord LevelAuth auditRec (set_outside x1 a))
               | (None, x1) \<Rightarrow>
                   (jsonStringResponse 200 ''{}'',
                    LogRecord LevelAuth (Record_Success auditRec)
                      (logger_Debug ''AdminDeleteUser, userID: %s''
                         [String ''userID'' userID] (set_outside x1 a))))"

subsection \<open>Sample data for the closed instances\<close>

definition alice :: User where
  "alice = \<lparr>User.ID = ''alice'', User.Username = ''alice'', User.Email = ''alice@example.org'',
     User.CreateAt = 100\<rparr>"

definition bob :: User where
  "bob = \<lparr>User.ID = ''bob'', User.Username = ''bob'', User.Email = ''bob@example.org'',
     User.CreateAt = 200\<rparr>"

definition mallory :: User where
  "mallory = \<lparr>User.ID = ''mallory'', User.Username = ''mallory'', User.Email = ''mallory@example.org'',
     User.CreateAt = 300\<rparr>"

definition n1 :: UserNotification where
  "n1 = \<lparr>ID = ''n1'', TargetUserID = ''bob'', ActorUserID = ''alice'', ActorName = ''Alice'',
     Type = ''assigned'', CardID = ''C1'', CardTitle = ''Card one'', BoardID = ''BRD1'',
     Read = False, CreateAt = 1000, UpdateAt = 1000\<rparr>"

definition n2 :: UserNotification where
  "n2 = \<lparr>ID = ''n2'', TargetUserID = ''alice'', ActorUserID = ''bob'', ActorName = ''Bob'',
     Type = ''mentioned'', CardID = ''C2'', CardTitle = ''Card two'', BoardID = ''BRD1'',
     Read = False, CreateAt = 2000, UpdateAt = 2000\<rparr>"

text \<open>
  A small instance of the outside: the accounts, the passwords set so far and the
  messages pushed to WebSocket clients.
\<close>

record Outside =
  accounts :: "User list"
  passwords :: "(string \<times> string) list"
  pushed :: "(string \<times> UserNotification) list"

definition sample_runner :: BaseRunner where
  "sample_runner = \<lparr>fault = None, RowsAffected_fault = None\<rparr>"

definition sample_env :: "Outside Env" where
  "sample_env =
     \<lparr>db = sample_runner,
      GetMillis = 5000,
      NewID = ''n3'',
      BroadcastUserNotification = (\<lambda>userID n x. x\<lparr>pushed := pushed x @ [(userID, n)]\<rparr>),
      GetAllUsers = (\<lambda>x. (Inr (accounts x), x)),
      GetUser = (\<lambda>userID x.
        (case find (\<lambda>u. User.ID u = userID) (accounts x) of
           None \<Rightarrow> Inl (ErrInternal ''user not found'')
         | Some u \<Rightarrow> Inr u, x)),
      UpdateUser = (\<lambda>user x.
        (Inr user,
         x\<lparr>accounts := map (\<lambda>u. if User.ID u = User.ID user then user else u) (accounts x)\<rparr>)),
      UpdateUserPasswordByID = (\<lambda>userID password x.
        (None, x\<lparr>passwords := passwords x @ [(userID, password)]\<rparr>)),
      UpdateUserPassword = (\<lambda>username password x.
        (None, x\<lparr>passwords := passwords x @ [(username, password)]\<rparr>)),
      DeleteUser = (\<lambda>userID x.
        (None, x\<lparr>accounts := filter (\<lambda>u. User.ID u \<noteq> userID) (accounts x)\<rparr>)),
      store_GetAllUsers = (\<lambda>x. Inr (accounts x)),
      json_Marshal = (\<lambda>v.
        Inr (case v of
               VNotification n \<Rightarrow> ID n @ (if Read n then '' read=true'' else '' read=false'')
             | VUser u \<Rightarrow> User.ID u
             | VUsers us \<Rightarrow> concat (map User.ID us)))\<rparr>"

definition sample_store :: SQLStore where
  "sample_store = \<lparr>user_notifications = [n1, n2], logger = []\<rparr>"

definition sample_outside :: Outside where
  "sample_outside = \<lparr>accounts = [alice, bob, mallory], passwords = [], pushed = []\<rparr>"

definition sample_app :: "Outside App" where
  "sample_app = \<lparr>store = sample_store, outside = sample_outside\<rparr>"

definition sample_api :: "Outside API" where
  "sample_api = \<lparr>app = sample_app, permissions = New, audit = [], logger = []\<rparr>"

text \<open>
  Requests. \<open>mallory\<close> (not the first user) posts a notification that targets \<open>bob\<close>
  and names \<open>alice\<close> as the actor; the second body also sets \<open>read\<close>. In the remaining
  requests the path variables all read as the caller's own ID, or as \<open>n1\<close>.
\<close>

definition forged_notification :: UserNotification where
  "forged_notification =
     \<lparr>ID = [], TargetUserID = ''bob'', ActorUserID = ''alice'', ActorName = ''Alice'',
      Type = ''assigned'', CardID = ''C1'', CardTitle = ''Card one'', BoardID = ''BRD1'',
      Read = False, CreateAt = 0, UpdateAt = 0\<rparr>"

definition mallory_posts :: "UserNotification Request" where
  "mallory_posts =
     \<lparr>Session_UserID = ''mallory'', Vars = (\<lambda>k. []), Body = Decodes forged_notification\<rparr>"

definition mallory_posts_read :: "UserNotification Request" where
  "mallory_posts_read =
     \<lparr>Session_UserID = ''mallory'', Vars = (\<lambda>k. []),
      Body = Decodes (forged_notification\<lparr>Read := True\<rparr>)\<rparr>"

definition mallory_deletes_own_account :: "unit Request" where
  "mallory_deletes_own_account =
     \<lparr>Session_UserID = ''mallory'', Vars = (\<lambda>k. ''mallory''), Body = Decodes ()\<rparr>"

definition alice_deletes_own_account :: "unit Request" where
  "alice_deletes_own_account =
     \<lparr>Session_UserID = ''alice'', Vars = (\<lambda>k. ''alice''), Body = Decodes ()\<rparr>"

definition mallory_updates_alice :: "AdminUpdateUserData Request" where
  "mallory_updates_alice =
     \<lparr>Session_UserID = ''mallory'', Vars = (\<lambda>k. ''alice''),
      Body = Decodes \<lparr>Username = ''eve'', Email = ''eve@example.org'', Password = ''secret''\<rparr>\<rparr>"

definition alice_on_n1 :: "unit Request" where
  "alice_on_n1 =
     \<lparr>Session_UserID = ''alice'', Vars = (\<lambda>k. ''n1''), Body = Decodes ()\<rparr>"

definition empty_password :: "AdminSetPasswordData Request" where
  "empty_password =
     \<lparr>Session_UserID = ''mallory'', Vars = (\<lambda>k. ''bob''),
      Body = Decodes \<lparr>AdminSetPasswordData.Password = []\<rparr>\<rparr>"

section \<open>The first registered user\<close>

lemma oldest_loop_from:
  "\<exists>r. oldest_loop (Some ou) us = Some r \<and>
     ((r = ou \<and> (\<forall>j<length us. \<not> User.CreateAt (us ! j) <s User.CreateAt ou)) \<or>
      (\<exists>i<length us. r = us ! i \<and> User.CreateAt r <s User.CreateAt ou \<and>
         (\<forall>j<length us. \<not> User.CreateAt (us ! j) <s User.CreateAt r) \<and>
         (\<forall>j<i. User.CreateAt r <s User.CreateAt (us ! j))))"
proof (induction us arbitrary: ou)
  case Nil
  show ?case by simp
next
  case (Cons u us)
  show ?case
  proof (cases "User.CreateAt u <s User.CreateAt ou")
    case True
    from Cons.IH [of u] obtain r where r: "oldest_loop (Some u) us = Some r"
      and alt: "(r = u \<and> (\<forall>j<length us. \<not> User.CreateAt (us ! j) <s User.CreateAt u)) \<or>
        (\<exists>i<length us. r = us ! i \<and> User.CreateAt r <s User.CreateAt u \<and>
           (\<forall>j<length us. \<not> User.CreateAt (us ! j) <s User.CreateAt r) \<and>
           (\<forall>j<i. User.CreateAt r <s User.CreateAt (us ! j)))"
      by blast
    have run: "oldest_loop (Some ou) (u # us) = Some r"
      using True r by simp
    from alt show ?thesis
    proof
      assume a: "r = u \<and> (\<forall>j<length us. \<not> User.CreateAt (us ! j) <s User.CreateAt u)"
      have "0 < length (u # us) \<and> r = (u # us) ! 0 \<and> User.CreateAt r <s User.CreateAt ou \<and>
         (\<forall>j<length (u # us). \<not> User.CreateAt ((u # us) ! j) <s User.CreateAt r) \<and>
         (\<forall>j<0. User.CreateAt r <s User.CreateAt ((u # us) ! j))"
        using a True by (auto simp: nth_Cons' word_sless_alt)
      then show ?thesis using run by blast
    next
      assume "\<exists>i<length us. r = us ! i \<and> User.CreateAt r <s User.CreateAt u \<and>
           (\<forall>j<length us. \<not> User.CreateAt (us ! j) <s User.CreateAt r) \<and>
           (\<forall>j<i. User.CreateAt r <s User.CreateAt (us ! j))"
      then obtain i where i: "i < length us" "r = us ! i"
        "User.CreateAt r <s User.CreateAt u"
        "\<forall>j<length us. \<not> User.CreateAt (us ! j) <s User.CreateAt r"
        "\<forall>j<i. User.CreateAt r <s User.CreateAt (us ! j)"
        by blast
      have "Suc i < length (u # us) \<and> r = (u # us) ! Suc i \<and>
         User.CreateAt r <s User.CreateAt ou \<and>
         (\<forall>j<length (u # us). \<not> User.CreateAt ((u # us) ! j) <s User.CreateAt r) \<and>
         (\<forall>j<Suc i. User.CreateAt r <s User.CreateAt ((u # us) ! j))"
        using i True by (auto simp: nth_Cons' word_sless_alt)
      then show ?thesis using run by blast
    qed
  next
    case False
    from Cons.IH [of ou] obtain r where r: "oldest_loop (Some ou) us = Some r"
      and alt: "(r = ou \<and> (\<forall>j<length us. \<not> User.CreateAt (us ! j) <s User.CreateAt ou)) \<or>
        (\<exists>i<length us. r = us ! i \<and> User.CreateAt r <s User.CreateAt ou \<and>
           (\<forall>j<length us. \<not> User.CreateAt (us ! j) <s User.CreateAt r) \<and>
           (\<forall>j<i. User.CreateAt r <s User.CreateAt (us ! j)))"
      by blast
    have run: "oldest_loop (Some ou) (u # us) = Some r"
      using False r by simp
    from alt show ?thesis
    proof
      assume a: "r = ou \<and> (\<forall>j<length us. \<not> User.CreateAt (us ! j) <s User.CreateAt ou)"
      have "r = ou \<and> (\<forall>j<length (u # us). \<not> User.CreateAt ((u # us) ! j) <s User.CreateAt ou)"
        using a False by (auto simp: nth_Cons')
      then show ?thesis using run by blast
    next
      assume "\<exists>i<length us. r = us ! i \<and> User.CreateAt r <s User.CreateAt ou \<and>
           (\<forall>j<length us. \<not> User.CreateAt (us ! j) <s User.CreateAt r) \<and>
           (\<forall>j<i. User.CreateAt r <s User.CreateAt (us ! j))"
      then obtain i where i: "i < length us" "r = us ! i"
        "User.CreateAt r <s User.CreateAt ou"
        "\<forall>j<length us. \<not> User.CreateAt (us ! j) <s User.CreateAt r"
        "\<forall>j<i. User.CreateAt r <s User.CreateAt (us ! j)"
        by blast
      have "Suc i < length (u # us) \<and> r = (u # us) ! Suc i \<and>
         User.CreateAt r <s User.CreateAt ou \<and>
         (\<forall>j<length (u # us). \<not> User.CreateAt ((u # us) ! j) <s User.CreateAt r) \<and>
         (\<forall>j<Suc i. User.CreateAt r <s User.CreateAt ((u # us) ! j))"
        using i False by (auto simp: nth_Cons' word_sless_alt)
      then show ?thesis using run by blast
    qed
  qed
qed

lemma oldest_loop_first_minimum:
  assumes "users \<noteq> []"
  shows "\<exists>i<length users. oldest_loop None users = Some (users ! i) \<and>
     (\<forall>j<length users. \<not> User.CreateAt (users ! j) <s User.CreateAt (users ! i)) \<and>
     (\<forall>j<i. User.CreateAt (users ! i) <s User.CreateAt (users ! j))"
proof -
  from assms obtain u us where users: "users = u # us"
    by (cases users) auto
  from oldest_loop_from [of u us] obtain r where r: "oldest_loop (Some u) us = Some r"
    and alt: "(r = u \<and> (\<forall>j<length us. \<not> User.CreateAt (us ! j) <s User.CreateAt u)) \<or>
      (\<exists>i<length us. r = us ! i \<and> User.CreateAt r <s User.CreateAt u \<and>
         (\<forall>j<length us. \<not> User.CreateAt (us ! j) <s User.CreateAt r) \<and>
         (\<forall>j<i. User.CreateAt r <s User.CreateAt (us ! j)))"
    by blast
  have run: "oldest_loop None users = Some r"
    using r users by simp
  from alt show ?thesis
  proof
    assume a: "r = u \<and> (\<forall>j<length us. \<not> User.CreateAt (us ! j) <s User.CreateAt u)"
    have "0 < length users \<and> oldest_loop None users = Some (users ! 0) \<and>
      (\<forall>j<length users. \<not> User.CreateAt (users ! j) <s User.CreateAt (users ! 0)) \<and>
      (\<forall>j<0. User.CreateAt (users ! 0) <s User.CreateAt (users ! j))"
      using a run users by (auto simp: nth_Cons' word_sless_alt)
    then show ?thesis by blast
  next
    assume "\<exists>i<length us. r = us ! i \<and> User.CreateAt r <s User.CreateAt u \<and>
         (\<forall>j<length us. \<not> User.CreateAt (us ! j) <s User.CreateAt r) \<and>
         (\<forall>j<i. User.CreateAt r <s User.CreateAt (us ! j))"
    then obtain i where i: "i < length us" "r = us ! i"
      "User.CreateAt r <s User.CreateAt u"
      "\<forall>j<length us. \<not> User.CreateAt (us ! j) <s User.CreateAt r"
      "\<forall>j<i. User.CreateAt r <s User.CreateAt (us ! j)"
      by blast
    have "Suc i < length users \<and> oldest_loop None users = Some (users ! Suc i) \<and>
      (\<forall>j<length users. \<not> User.CreateAt (users ! j) <s User.CreateAt (users ! Suc i)) \<and>
      (\<forall>j<Suc i. User.CreateAt (users ! Suc i) <s User.CreateAt (users ! j))"
      using i run users by (auto simp: nth_Cons' word_sless_alt)
    then show ?thesis by blast
  qed
qed


text \<open>
  C1, amended. For every permission whose \<open>Id\<close> is not the manage-system one the
  answer is \<open>False\<close> and the service is unchanged. Once the cache holds a user ID,
  the answer for manage-system is "the caller is the cached user", whatever the store
  holds now. On a service whose cache is not yet filled and a store that returns a
  non-empty list, the cached user is the first listed user with the smallest
  \<open>CreateAt\<close>, and the answer is "the caller is that user".
\<close>

theorem HasPermissionTo_first_user_cached:
  "(Id permission \<noteq> Id PermissionManageSystem \<longrightarrow>
      HasPermissionTo s g userID permission = (False, s)) \<and>
   (firstUserDone c \<and> firstUserID c \<noteq> [] \<longrightarrow>
      HasPermissionTo c g' userID PermissionManageSystem = (userID = firstUserID c, c)) \<and>
   (\<not> firstUserDone s0 \<and> users \<noteq> [] \<longrightarrow>
      (\<exists>i<length users.
         (\<forall>j<length users. \<not> User.CreateAt (users ! j) <s User.CreateAt (users ! i)) \<and>
         (\<forall>j<i. User.CreateAt (users ! i) <s User.CreateAt (users ! j)) \<and>
         HasPermissionTo s0 (Inr users) userID PermissionManageSystem =
           (userID = User.ID (users ! i),
            s0\<lparr>firstUserID := User.ID (users ! i), firstUserDone := True\<rparr>)))"
proof (intro conjI impI)
  assume "Id permission \<noteq> Id PermissionManageSystem"
  then show "HasPermissionTo s g userID permission = (False, s)"
    by (simp add: HasPermissionTo_def)
next
  assume "firstUserDone c \<and> firstUserID c \<noteq> []"
  then show "HasPermissionTo c g' userID PermissionManageSystem = (userID = firstUserID c, c)"
    by (simp add: HasPermissionTo_def)
next
  assume a: "\<not> firstUserDone s0 \<and> users \<noteq> []"
  then obtain i where i: "i < length users" "oldest_loop None users = Some (users ! i)"
    "\<forall>j<length users. \<not> User.CreateAt (users ! j) <s User.CreateAt (users ! i)"
    "\<forall>j<i. User.CreateAt (users ! i) <s User.CreateAt (users ! j)"
    using oldest_loop_first_minimum [of users] by blast
  have "HasPermissionTo s0 (Inr users) userID PermissionManageSystem =
      (userID = User.ID (users ! i),
       s0\<lparr>firstUserID := User.ID (users ! i), firstUserDone := True\<rparr>)"
    using a i(2) by (simp add: HasPermissionTo_def)
  with i show "\<exists>i<length users.
         (\<forall>j<length users. \<not> User.CreateAt (users ! j) <s User.CreateAt (users ! i)) \<and>
         (\<forall>j<i. User.CreateAt (users ! i) <s User.CreateAt (users ! j)) \<and>
         HasPermissionTo s0 (Inr users) userID PermissionManageSystem =
           (userID = User.ID (users ! i),
            s0\<lparr>firstUserID := User.ID (users ! i), firstUserDone := True\<rparr>)"
    by blast
qed

theorem HasPermissionTo_first_user_cached_witness:
  "Id \<lparr>Id = ''view_board''\<rparr> \<noteq> Id PermissionManageSystem \<and>
   HasPermissionTo New (Inr [alice, bob]) ''alice'' \<lparr>Id = ''view_board''\<rparr> = (False, New) \<and>
   firstUserDone (New\<lparr>firstUserID := ''alice'', firstUserDone := True\<rparr>) \<and>
   firstUserID (New\<lparr>firstUserID := ''alice'', firstUserDone := True\<rparr>) \<noteq> [] \<and>
   HasPermissionTo (New\<lparr>firstUserID := ''alice'', firstUserDone := True\<rparr>) (Inr [bob])
     ''alice'' PermissionManageSystem
     = (True, New\<lparr>firstUserID := ''alice'', firstUserDone := True\<rparr>) \<and>
   \<not> firstUserDone New \<and> [bob, alice] \<noteq> [] \<and>
   HasPermissionTo New (Inr [bob, alice]) ''alice'' PermissionManageSystem
     = (True, New\<lparr>firstUserID := ''alice'', firstUserDone := True\<rparr>)"
  using HasPermissionTo_first_user_cached
    [of "\<lparr>Id = ''view_board''\<rparr>" New "Inr [alice, bob]" "''alice''"
        "New\<lparr>firstUserID := ''alice'', firstUserDone := True\<rparr>" "Inr [bob]" New "[bob, alice]"]
  by (simp add: New_def alice_def bob_def PermissionManageSystem_def HasPermissionTo_def)

text \<open>
  C1 as stated fails on the cache: after \<open>alice\<close> (the first user) is deleted, \<open>bob\<close>
  is the stored user with the smallest \<open>CreateAt\<close>, and the service that answered one
  request before the deletion still refuses \<open>bob\<close>.
\<close>

theorem HasPermissionTo_after_deletion_counterexample:
  "oldest_loop None [bob] = Some bob \<and>
   fst (HasPermissionTo
          (snd (HasPermissionTo New (Inr [alice, bob]) ''bob'' PermissionManageSystem))
          (Inr [bob]) ''bob'' PermissionManageSystem) = False"
  by (simp add: New_def alice_def bob_def HasPermissionTo_def)

text \<open>
  The other way the cache goes wrong: a first request against an empty store fills the
  cache with the empty string, so the empty user ID is then granted manage-system and a
  user who registers afterwards is not.
\<close>

lemma HasPermissionTo_empty_store:
  "HasPermissionTo New (Inr []) [] PermissionManageSystem
     = (True, New\<lparr>firstUserDone := True\<rparr>) \<and>
   fst (HasPermissionTo (New\<lparr>firstUserDone := True\<rparr>) (Inr [alice]) ''alice''
          PermissionManageSystem) = False"
  by (simp add: New_def alice_def HasPermissionTo_def)

section \<open>The notification table\<close>

lemma Exec_update_ok:
  "fault rn = None \<Longrightarrow>
   Exec_update rn wh st rows =
     Inr (map (\<lambda>row. if wh row then st row else row) rows, length (filter wh rows))"
  by (simp add: Exec_update_def)

lemma markAllNotificationsAsRead_ok:
  "fault rn = None \<Longrightarrow>
   markAllNotificationsAsRead s rn now u =
     (None,
      s\<lparr>user_notifications :=
           map (\<lambda>row. if TargetUserID row = u \<and> \<not> Read row
                       then row\<lparr>Read := True, UpdateAt := now\<rparr> else row)
             (user_notifications s)\<rparr>)"
  by (simp add: markAllNotificationsAsRead_def Exec_update_ok)

lemma filter_unread_after_mark_all:
  "filter (\<lambda>row. TargetUserID row = u \<and> \<not> Read row)
     (map (\<lambda>row. if TargetUserID row = u \<and> \<not> Read row
                 then row\<lparr>Read := True, UpdateAt := now\<rparr> else row) rows) = []"
  by (induction rows) auto

text \<open>
  C4. When the driver executes the statement, mark-all-read for user \<open>u\<close> succeeds and
  keeps the number and order of rows; every row of \<open>u\<close> that was unread becomes read
  with \<open>update_at\<close> set to the time of the call and no other field changed; every row
  of \<open>u\<close> that was already read, and every row of any other user, is unchanged; and
  the unread count of \<open>u\<close> afterwards is zero.
\<close>

theorem markAllNotificationsAsRead_marks_the_users_unread_rows:
  assumes "fault rn = None"
  shows "\<exists>s'. markAllNotificationsAsRead s rn now u = (None, s') \<and>
     length (user_notifications s') = length (user_notifications s) \<and>
     (\<forall>i<length (user_notifications s).
        TargetUserID (user_notifications s ! i) = u \<and> \<not> Read (user_notifications s ! i) \<longrightarrow>
        user_notifications s' ! i = (user_notifications s ! i)\<lparr>Read := True, UpdateAt := now\<rparr>) \<and>
     (\<forall>i<length (user_notifications s).
        TargetUserID (user_notifications s ! i) = u \<and> Read (user_notifications s ! i) \<longrightarrow>
        user_notifications s' ! i = user_notifications s ! i) \<and>
     (\<forall>i<length (user_notifications s).
        TargetUserID (user_notifications s ! i) \<noteq> u \<longrightarrow>
        user_notifications s' ! i = user_notifications s ! i) \<and>
     getUnreadNotificationCount s' rn u = Inr 0"
  using assms
  by (simp add: markAllNotificationsAsRead_ok getUnreadNotificationCount_def
      QueryRow_count_def filter_unread_after_mark_all)

theorem markAllNotificationsAsRead_marks_the_users_unread_rows_witness:
  "fault sample_runner = None \<and>
   markAllNotificationsAsRead sample_store sample_runner 5000 ''bob''
     = (None, sample_store\<lparr>user_notifications := [n1\<lparr>Read := True, UpdateAt := 5000\<rparr>, n2]\<rparr>) \<and>
   getUnreadNotificationCount
     (sample_store\<lparr>user_notifications := [n1\<lparr>Read := True, UpdateAt := 5000\<rparr>, n2]\<rparr>)
     sample_runner ''bob'' = Inr 0"
  using markAllNotificationsAsRead_marks_the_users_unread_rows
    [of sample_runner sample_store 5000 "''bob''"]
  by (simp add: sample_runner_def sample_store_def n1_def n2_def
      markAllNotificationsAsRead_def Exec_update_def getUnreadNotificationCount_def
      QueryRow_count_def)

lemma handleMarkAllAsRead_ok:
  "fault (db e) = None \<Longrightarrow>
   fst (handleMarkAllAsRead e a r) = JSONResponse 200 ''{}'' \<and>
   store (app (snd (handleMarkAllAsRead e a r))) =
     snd (markAllNotificationsAsRead (store (app a)) (db e) (GetMillis e) (Session_UserID r)) \<and>
   outside (app (snd (handleMarkAllAsRead e a r))) = outside (app a)"
  by (simp add: handleMarkAllAsRead_def MarkAllNotificationsAsRead_def getUserID_def
      markAllNotificationsAsRead_ok jsonStringResponse_def LogRecord_def)

lemma map_update_no_match:
  "\<forall>row\<in>set rows. \<not> wh row \<Longrightarrow> map (\<lambda>row. if wh row then st row else row) rows = rows"
  by (induction rows) auto

lemma filter_no_match:
  "\<forall>row\<in>set rows. \<not> wh row \<Longrightarrow> filter (\<lambda>row. \<not> wh row) rows = rows"
  by (induction rows) auto

lemma markNotificationAsRead_table:
  assumes "\<forall>row\<in>set (user_notifications s). \<not> (ID row = nid \<and> TargetUserID row = uid)"
  shows "user_notifications (snd (markNotificationAsRead s rn now nid uid)) = user_notifications s"
proof (cases "fault rn")
  case (Some err)
  then show ?thesis by (simp add: markNotificationAsRead_def Exec_update_def)
next
  case None
  have m: "map (\<lambda>row. if ID row = nid \<and> TargetUserID row = uid
                 then row\<lparr>Read := True, UpdateAt := now\<rparr> else row) (user_notifications s)
      = user_notifications s"
    using assms by (intro map_update_no_match) simp
  show ?thesis using None m
    by (simp add: markNotificationAsRead_def Exec_update_def RowsAffected_def Let_def
        split: option.splits)
qed

lemma markNotificationAsRead_success:
  "fault rn = None \<Longrightarrow> RowsAffected_fault rn = None \<Longrightarrow>
   fst (markNotificationAsRead s rn now nid uid) = None"
  by (simp add: markNotificationAsRead_def Exec_update_def RowsAffected_def Let_def)

text \<open>
  C5. If no stored notification has the requested id together with the caller as its
  target (it does not exist, or it belongs to someone else), marking it as read
  returns no error at the store and at the application layer, the endpoint answers
  200, and the table is exactly as before. The driver is assumed to execute the
  statement and to report the affected rows.
\<close>

theorem markNotificationAsRead_absent_is_noop:
  assumes "\<forall>row\<in>set (user_notifications (store (app a))).
             \<not> (ID row = Vars r ''notificationID'' \<and> TargetUserID row = Session_UserID r)"
    and "fault (db e) = None" and "RowsAffected_fault (db e) = None"
  shows "fst (markNotificationAsRead (store (app a)) (db e) (GetMillis e)
                (Vars r ''notificationID'') (Session_UserID r)) = None \<and>
     user_notifications
       (snd (markNotificationAsRead (store (app a)) (db e) (GetMillis e)
               (Vars r ''notificationID'') (Session_UserID r)))
       = user_notifications (store (app a)) \<and>
     fst (MarkNotificationAsRead e (app a) (Vars r ''notificationID'') (Session_UserID r)) = None \<and>
     fst (handleMarkAsRead e a r) = JSONResponse 200 ''{}'' \<and>
     user_notifications (store (app (snd (handleMarkAsRead e a r))))
       = user_notifications (store (app a)) \<and>
     outside (app (snd (handleMarkAsRead e a r))) = outside (app a)"
proof -
  let ?m = "markNotificationAsRead (store (app a)) (db e) (GetMillis e)
                (Vars r ''notificationID'') (Session_UserID r)"
  have ok: "fst ?m = None"
    using assms(2,3) by (rule markNotificationAsRead_success)
  have tab: "user_notifications (snd ?m) = user_notifications (store (app a))"
    using assms(1) by (rule markNotificationAsRead_table)
  obtain st where m: "?m = (None, st)"
    using ok by (cases ?m) auto
  have h: "handleMarkAsRead e a r =
      (JSONResponse 200 ''{}'',
       LogRecord LevelModify (Record_Success (makeAuditRecord ''markNotificationAsRead'' Fail))
         (a\<lparr>app := (app a)\<lparr>store := st\<rparr>\<rparr>))"
    using m by (simp add: handleMarkAsRead_def MarkNotificationAsRead_def getUserID_def
        jsonStringResponse_def)
  show ?thesis using ok tab m h
    by (simp add: MarkNotificationAsRead_def LogRecord_def)
qed


theorem markNotificationAsRead_absent_is_noop_witness:
  "filter (\<lambda>row. ID row = Vars alice_on_n1 ''notificationID'' \<and>
              TargetUserID row = Session_UserID alice_on_n1)
     (user_notifications (store (app sample_api))) = [] \<and>
   fault (db sample_env) = None \<and> RowsAffected_fault (db sample_env) = None \<and>
   fst (handleMarkAsRead sample_env sample_api alice_on_n1) = JSONResponse 200 ''{}'' \<and>
   user_notifications (store (app (snd (handleMarkAsRead sample_env sample_api alice_on_n1))))
     = [n1, n2]"
proof -
  have h: "\<forall>row\<in>set (user_notifications (store (app sample_api))).
      \<not> (ID row = Vars alice_on_n1 ''notificationID'' \<and>
         TargetUserID row = Session_UserID alice_on_n1)"
    by (simp add: sample_api_def sample_app_def sample_store_def alice_on_n1_def n1_def n2_def)
  have f: "fault (db sample_env) = None" "RowsAffected_fault (db sample_env) = None"
    by (simp_all add: sample_env_def sample_runner_def)
  have s: "user_notifications (store (app sample_api)) = [n1, n2]"
    by (simp add: sample_api_def sample_app_def sample_store_def)
  have n: "filter (\<lambda>row. ID row = Vars alice_on_n1 ''notificationID'' \<and>
              TargetUserID row = Session_UserID alice_on_n1)
     (user_notifications (store (app sample_api))) = []"
    by (simp add: s alice_on_n1_def n1_def n2_def)
  show ?thesis
    using markNotificationAsRead_absent_is_noop [OF h f] n f s by simp
qed

lemma deleteUserNotification_table:
  assumes "\<forall>row\<in>set (user_notifications s). ID row = nid \<longrightarrow> TargetUserID row \<noteq> uid"
  shows "user_notifications (snd (deleteUserNotification s rn nid uid)) = user_notifications s"
proof (cases "fault rn")
  case (Some err)
  then show ?thesis by (simp add: deleteUserNotification_def Exec_delete_def)
next
  case None
  have "filter (\<lambda>row. \<not> (ID row = nid \<and> TargetUserID row = uid)) (user_notifications s)
      = user_notifications s"
    using assms by (intro filter_no_match) blast
  then show ?thesis using None
    by (simp add: deleteUserNotification_def Exec_delete_def)
qed

lemma deleteUserNotification_success:
  "fault rn = None \<Longrightarrow> fst (deleteUserNotification s rn nid uid) = None"
  by (simp add: deleteUserNotification_def Exec_delete_def)

text \<open>
  C6. If every stored notification with the requested id has a target other than the
  caller, the delete removes no row and changes no field: the store is returned as it
  was, the operation reports success and the endpoint answers 200. The driver is
  assumed to execute the statement.
\<close>

theorem deleteUserNotification_of_another_user_is_noop:
  assumes "\<forall>row\<in>set (user_notifications (store (app a))).
             ID row = Vars r ''notificationID'' \<longrightarrow> TargetUserID row \<noteq> Session_UserID r"
    and "fault (db e) = None"
  shows "deleteUserNotification (store (app a)) (db e) (Vars r ''notificationID'')
            (Session_UserID r) = (None, store (app a)) \<and>
     fst (handleDeleteNotification e a r) = JSONResponse 200 ''{}'' \<and>
     app (snd (handleDeleteNotification e a r)) = app a"
proof -
  let ?d = "deleteUserNotification (store (app a)) (db e) (Vars r ''notificationID'')
            (Session_UserID r)"
  have ok: "fst ?d = None"
    using assms(2) by (rule deleteUserNotification_success)
  have tab: "user_notifications (snd ?d) = user_notifications (store (app a))"
    using assms(1) by (rule deleteUserNotification_table)
  have lg: "SQLStore.logger (snd ?d) = SQLStore.logger (store (app a))"
    by (simp add: deleteUserNotification_def Exec_delete_def split: option.splits)
  have st: "snd ?d = store (app a)"
    using tab lg by simp
  have d: "?d = (None, store (app a))"
    using ok st by (cases ?d) auto
  have h: "handleDeleteNotification e a r =
      (JSONResponse 200 ''{}'',
       LogRecord LevelModify (Record_Success (makeAuditRecord ''deleteNotification'' Fail)) a)"
    using d by (simp add: handleDeleteNotification_def DeleteUserNotification_def getUserID_def
        jsonStringResponse_def)
  show ?thesis using d h by (simp add: LogRecord_def)
qed

theorem deleteUserNotification_of_another_user_is_noop_witness:
  "filter (\<lambda>row. ID row = Vars alice_on_n1 ''notificationID'' \<and>
              TargetUserID row = Session_UserID alice_on_n1)
     (user_notifications (store (app sample_api))) = [] \<and>
   fault (db sample_env) = None \<and>
   n1 \<in> set (user_notifications (store (app sample_api))) \<and>
   ID n1 = Vars alice_on_n1 ''notificationID'' \<and>
   fst (handleDeleteNotification sample_env sample_api alice_on_n1) = JSONResponse 200 ''{}'' \<and>
   user_notifications (store (app (snd (handleDeleteNotification sample_env sample_api
     alice_on_n1)))) = [n1, n2]"
proof -
  have h: "\<forall>row\<in>set (user_notifications (store (app sample_api))).
      ID row = Vars alice_on_n1 ''notificationID'' \<longrightarrow>
      TargetUserID row \<noteq> Session_UserID alice_on_n1"
    by (simp add: sample_api_def sample_app_def sample_store_def alice_on_n1_def n1_def n2_def)
  have f: "fault (db sample_env) = None"
    by (simp add: sample_env_def sample_runner_def)
  have s: "user_notifications (store (app sample_api)) = [n1, n2]"
    by (simp add: sample_api_def sample_app_def sample_store_def)
  have i: "ID n1 = Vars alice_on_n1 ''notificationID''"
    by (simp add: n1_def alice_on_n1_def)
  have n: "filter (\<lambda>row. ID row = Vars alice_on_n1 ''notificationID'' \<and>
              TargetUserID row = Session_UserID alice_on_n1)
     (user_notifications (store (app sample_api))) = []"
    by (simp add: s alice_on_n1_def n1_def n2_def)
  show ?thesis
    using deleteUserNotification_of_another_user_is_noop [OF h f] n f s i by simp
qed

section \<open>Insert, then broadcast\<close>

lemma createUserNotification_outcome:
  "createUserNotification s rn now newID n = (res, s') \<Longrightarrow>
   (case res of
      Inl err \<Rightarrow> user_notifications s' = user_notifications s
    | Inr created \<Rightarrow>
        created = n\<lparr>ID := newID, CreateAt := now, UpdateAt := now\<rparr> \<and>
        user_notifications s' = user_notifications s @ [created] \<and>
        SQLStore.logger s' = SQLStore.logger s)"
  by (auto simp: createUserNotification_def Exec_insert_def Let_def
      split: option.splits if_splits sum.splits)

lemma CreateUserNotification_outside:
  "CreateUserNotification e a n = (res, a1) \<Longrightarrow> outside a1 = outside a"
  by (auto simp: CreateUserNotification_def split: prod.splits)

lemma CreateUserNotification_Broadcast_irrelevant:
  "CreateUserNotification (e\<lparr>BroadcastUserNotification := bc\<rparr>) a n
     = CreateUserNotification e a n"
  by (simp add: CreateUserNotification_def)

lemma CreateUserNotification_stored:
  "CreateUserNotification e a n = (Inr created, a1) \<Longrightarrow>
   user_notifications (store a1) = user_notifications (store a) @ [created]"
  by (auto simp: CreateUserNotification_def split: prod.splits
      dest!: createUserNotification_outcome)

text \<open>
  C9. If the insert fails, \<open>CreateAndBroadcastNotification\<close> returns that error and no
  entity, and the outside (so the WebSocket adapter) is untouched whatever the
  broadcast function is. If the insert succeeds, the created row is in the table, the
  broadcast receives that row, and the result and the store are the same for every
  broadcast function: nothing the broadcast does reaches the caller.
\<close>

theorem CreateAndBroadcastNotification_insert_before_broadcast:
  "(CreateUserNotification e a n = (Inl err, a1) \<longrightarrow>
      CreateAndBroadcastNotification e a n = (Inl err, a1) \<and> outside a1 = outside a) \<and>
   (CreateUserNotification e a n = (Inr created, a2) \<longrightarrow>
      user_notifications (store a2) = user_notifications (store a) @ [created] \<and>
      CreateAndBroadcastNotification e a n =
        (Inr created,
         a2\<lparr>outside := BroadcastUserNotification e (TargetUserID created) created (outside a)\<rparr>) \<and>
      (\<forall>bc. fst (CreateAndBroadcastNotification (e\<lparr>BroadcastUserNotification := bc\<rparr>) a n)
               = Inr created \<and>
            store (snd (CreateAndBroadcastNotification (e\<lparr>BroadcastUserNotification := bc\<rparr>) a n))
               = store a2))"
proof (intro conjI impI allI)
  assume c: "CreateUserNotification e a n = (Inl err, a1)"
  then show "CreateAndBroadcastNotification e a n = (Inl err, a1)"
    by (simp add: CreateAndBroadcastNotification_def)
  from c show "outside a1 = outside a"
    by (rule CreateUserNotification_outside)
next
  assume c: "CreateUserNotification e a n = (Inr created, a2)"
  then show "user_notifications (store a2) = user_notifications (store a) @ [created]"
    by (rule CreateUserNotification_stored)
  from c have o: "outside a2 = outside a"
    by (rule CreateUserNotification_outside)
  from c o show "CreateAndBroadcastNotification e a n =
        (Inr created,
         a2\<lparr>outside := BroadcastUserNotification e (TargetUserID created) created (outside a)\<rparr>)"
    by (simp add: CreateAndBroadcastNotification_def)
  fix bc
  from c show "fst (CreateAndBroadcastNotification (e\<lparr>BroadcastUserNotification := bc\<rparr>) a n)
               = Inr created"
    by (simp add: CreateAndBroadcastNotification_def CreateUserNotification_Broadcast_irrelevant)
  from c show
    "store (snd (CreateAndBroadcastNotification (e\<lparr>BroadcastUserNotification := bc\<rparr>) a n))
               = store a2"
    by (simp add: CreateAndBroadcastNotification_def CreateUserNotification_Broadcast_irrelevant)
qed


theorem CreateAndBroadcastNotification_insert_before_broadcast_witness:
  "CreateUserNotification
     (sample_env\<lparr>db := \<lparr>fault = Some (ErrInternal ''connection refused''),
                          RowsAffected_fault = None\<rparr>\<rparr>)
     sample_app forged_notification
     = (Inl (ErrInternal ''connection refused''),
        sample_app\<lparr>store := sample_store\<lparr>SQLStore.logger :=
          [(Error, ''Cannot create user notification'',
            [String ''target_user_id'' ''bob'', Err (ErrInternal ''connection refused'')])]\<rparr>\<rparr>) \<and>
   CreateAndBroadcastNotification
     (sample_env\<lparr>db := \<lparr>fault = Some (ErrInternal ''connection refused''),
                          RowsAffected_fault = None\<rparr>\<rparr>)
     sample_app forged_notification
     = (Inl (ErrInternal ''connection refused''),
        sample_app\<lparr>store := sample_store\<lparr>SQLStore.logger :=
          [(Error, ''Cannot create user notification'',
            [String ''target_user_id'' ''bob'', Err (ErrInternal ''connection refused'')])]\<rparr>\<rparr>) \<and>
   CreateUserNotification sample_env sample_app forged_notification
     = (Inr (forged_notification\<lparr>ID := ''n3'', CreateAt := 5000, UpdateAt := 5000\<rparr>),
        sample_app\<lparr>store := sample_store\<lparr>user_notifications :=
          [n1, n2, forged_notification\<lparr>ID := ''n3'', CreateAt := 5000, UpdateAt := 5000\<rparr>]\<rparr>\<rparr>) \<and>
   CreateAndBroadcastNotification sample_env sample_app forged_notification
     = (Inr (forged_notification\<lparr>ID := ''n3'', CreateAt := 5000, UpdateAt := 5000\<rparr>),
        \<lparr>store = sample_store\<lparr>user_notifications :=
           [n1, n2, forged_notification\<lparr>ID := ''n3'', CreateAt := 5000, UpdateAt := 5000\<rparr>]\<rparr>,
         outside = sample_outside\<lparr>pushed :=
           [(''bob'', forged_notification\<lparr>ID := ''n3'', CreateAt := 5000, UpdateAt := 5000\<rparr>)]\<rparr>\<rparr>)"
proof -
  let ?fe = "sample_env\<lparr>db := \<lparr>fault = Some (ErrInternal ''connection refused''),
                          RowsAffected_fault = None\<rparr>\<rparr>"
  let ?a1 = "sample_app\<lparr>store := sample_store\<lparr>SQLStore.logger :=
          [(Error, ''Cannot create user notification'',
            [String ''target_user_id'' ''bob'', Err (ErrInternal ''connection refused'')])]\<rparr>\<rparr>"
  let ?c = "forged_notification\<lparr>ID := ''n3'', CreateAt := 5000, UpdateAt := 5000\<rparr>"
  let ?a2 = "sample_app\<lparr>store := sample_store\<lparr>user_notifications := [n1, n2, ?c]\<rparr>\<rparr>"
  have f: "CreateUserNotification ?fe sample_app forged_notification
      = (Inl (ErrInternal ''connection refused''), ?a1)"
    by (simp add: CreateUserNotification_def createUserNotification_def Exec_insert_def
        sample_app_def sample_store_def forged_notification_def Let_def)
  have g: "CreateUserNotification sample_env sample_app forged_notification = (Inr ?c, ?a2)"
    by (simp add: CreateUserNotification_def createUserNotification_def Exec_insert_def
        sample_env_def sample_runner_def sample_app_def sample_store_def
        forged_notification_def n1_def n2_def Let_def)
  have t: "TargetUserID ?c = ''bob''"
    by (simp add: forged_notification_def)
  have b: "BroadcastUserNotification sample_env ''bob'' ?c (outside sample_app)
      = sample_outside\<lparr>pushed := [(''bob'', ?c)]\<rparr>"
    by (simp add: sample_env_def sample_app_def sample_outside_def)
  from CreateAndBroadcastNotification_insert_before_broadcast
    [of ?fe sample_app forged_notification "ErrInternal ''connection refused''" ?a1] f
  have r1: "CreateAndBroadcastNotification ?fe sample_app forged_notification
      = (Inl (ErrInternal ''connection refused''), ?a1)"
    by blast
  from CreateAndBroadcastNotification_insert_before_broadcast
    [of sample_env sample_app forged_notification _ _ ?c ?a2] g
  have r2: "CreateAndBroadcastNotification sample_env sample_app forged_notification =
      (Inr ?c, ?a2\<lparr>outside := BroadcastUserNotification sample_env (TargetUserID ?c) ?c
          (outside sample_app)\<rparr>)"
    by blast
  have r3: "CreateAndBroadcastNotification sample_env sample_app forged_notification =
      (Inr ?c, \<lparr>store = sample_store\<lparr>user_notifications := [n1, n2, ?c]\<rparr>,
               outside = sample_outside\<lparr>pushed := [(''bob'', ?c)]\<rparr>\<rparr>)"
    unfolding r2 t b by (simp add: sample_app_def)
  show ?thesis using f g r1 r3 by simp
qed

section \<open>The create-notification endpoint\<close>

lemma handleCreateNotification_ignores_caller:
  "handleCreateNotification e (a\<lparr>permissions := svc\<rparr>) (r\<lparr>Session_UserID := u\<rparr>)
     = (fst (handleCreateNotification e a r),
        (snd (handleCreateNotification e a r))\<lparr>permissions := svc\<rparr>)"
  by (simp add: handleCreateNotification_def LogRecord_def logger_Debug_def Let_def
      split: Body.splits prod.splits sum.splits)

text \<open>
  C2 at a concrete request. \<open>mallory\<close> holds no manage-system permission and is neither
  the actor nor the target of the notification posted; the handler stores the row,
  pushes it to \<open>bob\<close> and answers 200. The handler never looks at the session or at
  the permission service, as \<open>handleCreateNotification_ignores_caller\<close> says in
  general.
\<close>

theorem handleCreateNotification_without_capability:
  "fst (HasPermissionTo (permissions sample_api)
          (store_GetAllUsers sample_env (outside (app sample_api)))
          (Session_UserID mallory_posts) PermissionManageSystem) = False \<and>
   handleCreateNotification sample_env sample_api mallory_posts
     = (JSONResponse 200 ''n3 read=false'',
        \<lparr>app = \<lparr>store = \<lparr>user_notifications =
                     [n1, n2, forged_notification\<lparr>ID := ''n3'', CreateAt := 5000,
                                UpdateAt := 5000\<rparr>],
                   logger = []\<rparr>,
                 outside = \<lparr>accounts = [alice, bob, mallory], passwords = [],
                   pushed = [(''bob'', forged_notification\<lparr>ID := ''n3'', CreateAt := 5000,
                                UpdateAt := 5000\<rparr>)]\<rparr>\<rparr>,
         permissions = New,
         audit = [(LevelModify,
                   \<lparr>Event = ''createNotification'', Status = Success, Meta = []\<rparr>)],
         logger = [(Debug, ''CreateNotification'',
                    [String ''targetUserID'' ''bob'', String ''type'' ''assigned''])]\<rparr>)"
  by (simp add: handleCreateNotification_def CreateAndBroadcastNotification_def
      CreateUserNotification_def createUserNotification_def Exec_insert_def
      HasPermissionTo_def New_def alice_def bob_def mallory_def
      sample_env_def sample_runner_def sample_api_def sample_app_def sample_store_def
      sample_outside_def mallory_posts_def forged_notification_def n1_def n2_def
      LogRecord_def logger_Debug_def makeAuditRecord_def Record_Success_def
      jsonBytesResponse_def Let_def)

lemma NewUserNotification_unread:
  "Read (NewUserNotification now newID targetUserID actorUserID actorName notifType cardID
           cardTitle boardID) = False"
  by (simp add: NewUserNotification_def)

lemma createUserNotification_keeps_Read:
  "createUserNotification s rn now newID n = (Inr created, s') \<Longrightarrow>
   Read created = Read n \<and> last (user_notifications s') = created"
  by (auto dest!: createUserNotification_outcome)

text \<open>
  C3 at a concrete request. A body that sets \<open>read\<close> to true is stored and returned
  with \<open>Read = True\<close>: the store overwrites \<open>ID\<close>, \<open>CreateAt\<close> and \<open>UpdateAt\<close> and
  keeps \<open>Read\<close> as decoded (\<open>createUserNotification_keeps_Read\<close>). The
  constructor \<open>NewUserNotification\<close>, which this path does not use, builds unread
  notifications only (\<open>NewUserNotification_unread\<close>).
\<close>

theorem handleCreateNotification_read_from_body:
  "Body mallory_posts_read = Decodes (forged_notification\<lparr>Read := True\<rparr>) \<and>
   fst (handleCreateNotification sample_env sample_api mallory_posts_read)
     = JSONResponse 200 ''n3 read=true'' \<and>
   user_notifications (store (app (snd
       (handleCreateNotification sample_env sample_api mallory_posts_read))))
     = [n1, n2, forged_notification\<lparr>ID := ''n3'', Read := True, CreateAt := 5000,
                  UpdateAt := 5000\<rparr>] \<and>
   Read (last (user_notifications (store (app (snd
       (handleCreateNotification sample_env sample_api mallory_posts_read)))))) = True"
  by (simp add: handleCreateNotification_def CreateAndBroadcastNotification_def
      CreateUserNotification_def createUserNotification_def Exec_insert_def
      sample_env_def sample_runner_def sample_api_def sample_app_def sample_store_def
      sample_outside_def mallory_posts_read_def forged_notification_def n1_def n2_def
      LogRecord_def logger_Debug_def makeAuditRecord_def Record_Success_def
      jsonBytesResponse_def Let_def)

section \<open>Admin routes\<close>

lemma admin_check_eq:
  "admin_check e a r =
     (fst (HasPermissionTo (permissions a) (store_GetAllUsers e (outside (app a)))
             (Session_UserID r) PermissionManageSystem),
      a\<lparr>permissions :=
           snd (HasPermissionTo (permissions a) (store_GetAllUsers e (outside (app a)))
                  (Session_UserID r) PermissionManageSystem)\<rparr>)"
  by (simp add: admin_check_def split: prod.splits)

lemma handleAdminDeleteUser_self_target:
  assumes "Vars r ''userID'' = Session_UserID r"
  shows "app (snd (handleAdminDeleteUser e a r)) = app a \<and>
     fst (handleAdminDeleteUser e a r) =
       (if fst (HasPermissionTo (permissions a) (store_GetAllUsers e (outside (app a)))
                  (Session_UserID r) PermissionManageSystem)
        then ErrorResponse (ErrBadRequest ''cannot delete yourself'')
        else ErrorResponse (ErrUnauthorized ''not authorized to access admin panel''))"
  using assms
  by (simp add: handleAdminDeleteUser_def admin_check_eq errorResponse_def LogRecord_def
      Let_def)

text \<open>
  C7. An admin, that is a caller to whom the permission service grants manage-system,
  who targets their own account (the path \<open>userID\<close> equals the session's \<open>UserID\<close>)
  is rejected with the bad-request error, and no user is deleted: \<open>DeleteUser\<close> is
  never invoked, so the application state is unchanged whatever the environment does.
\<close>

theorem handleAdminDeleteUser_own_account:
  assumes "Vars r ''userID'' = Session_UserID r"
    and "fst (HasPermissionTo (permissions a) (store_GetAllUsers e (outside (app a)))
                (Session_UserID r) PermissionManageSystem)"
  shows "fst (handleAdminDeleteUser e a r)
           = ErrorResponse (ErrBadRequest ''cannot delete yourself'') \<and>
     app (snd (handleAdminDeleteUser e a r)) = app a"
  using handleAdminDeleteUser_self_target [OF assms(1), of e a] assms(2) by simp

theorem handleAdminDeleteUser_own_account_witness:
  "Vars alice_deletes_own_account ''userID'' = Session_UserID alice_deletes_own_account \<and>
   fst (HasPermissionTo (permissions sample_api)
          (store_GetAllUsers sample_env (outside (app sample_api)))
          (Session_UserID alice_deletes_own_account) PermissionManageSystem) \<and>
   fst (handleAdminDeleteUser sample_env sample_api alice_deletes_own_account)
     = ErrorResponse (ErrBadRequest ''cannot delete yourself'') \<and>
   accounts (outside (app (snd (handleAdminDeleteUser sample_env sample_api
     alice_deletes_own_account)))) = [alice, bob, mallory]"
proof -
  have h: "Vars alice_deletes_own_account ''userID'' = Session_UserID alice_deletes_own_account"
    by (simp add: alice_deletes_own_account_def)
  have p: "fst (HasPermissionTo (permissions sample_api)
                  (store_GetAllUsers sample_env (outside (app sample_api)))
                  (Session_UserID alice_deletes_own_account) PermissionManageSystem)"
    by (simp add: HasPermissionTo_def sample_api_def sample_app_def sample_outside_def
        sample_env_def New_def alice_def bob_def mallory_def alice_deletes_own_account_def)
  have o: "accounts (outside (app sample_api)) = [alice, bob, mallory]"
    by (simp add: sample_api_def sample_app_def sample_outside_def)
  show ?thesis
    using handleAdminDeleteUser_own_account [OF h p] h p o by simp
qed

text \<open>
  C8. For a caller whom the permission service refuses manage-system, each of the four
  routes under \<open>/admin/users\<close> returns the same authorization failure, and the API is
  left as it was except for the permission service's own cache (the check may read
  the user list once to fill it): no application call runs, whatever the environment
  does, and no audit record or log line is written. The result is the same for every
  request body.
\<close>

theorem admin_routes_refuse_non_admin:
  "(\<not> fst (HasPermissionTo (permissions a) (store_GetAllUsers e (outside (app a)))
              (Session_UserID r) PermissionManageSystem) \<longrightarrow>
      handleAdminGetAllUsers e a r =
        (ErrorResponse (ErrUnauthorized ''not authorized to access admin panel''),
         a\<lparr>permissions :=
              snd (HasPermissionTo (permissions a) (store_GetAllUsers e (outside (app a)))
                     (Session_UserID r) PermissionManageSystem)\<rparr>) \<and>
      handleAdminGetUser e a r =
        (ErrorResponse (ErrUnauthorized ''not authorized to access admin panel''),
         a\<lparr>permissions :=
              snd (HasPermissionTo (permissions a) (store_GetAllUsers e (outside (app a)))
                     (Session_UserID r) PermissionManageSystem)\<rparr>) \<and>
      handleAdminDeleteUser e a r =
        (ErrorResponse (ErrUnauthorized ''not authorized to access admin panel''),
         a\<lparr>permissions :=
              snd (HasPermissionTo (permissions a) (store_GetAllUsers e (outside (app a)))
                     (Session_UserID r) PermissionManageSystem)\<rparr>) \<and>
      (\<forall>body. handleAdminGetAllUsers e a (r\<lparr>Body := body\<rparr>) = handleAdminGetAllUsers e a r \<and>
         handleAdminGetUser e a (r\<lparr>Body := body\<rparr>) = handleAdminGetUser e a r \<and>
         handleAdminDeleteUser e a (r\<lparr>Body := body\<rparr>) = handleAdminDeleteUser e a r)) \<and>
   (\<not> fst (HasPermissionTo (permissions a) (store_GetAllUsers e (outside (app a)))
              (Session_UserID ru) PermissionManageSystem) \<longrightarrow>
      handleAdminUpdateUser e a ru =
        (ErrorResponse (ErrUnauthorized ''not authorized to access admin panel''),
         a\<lparr>permissions :=
              snd (HasPermissionTo (permissions a) (store_GetAllUsers e (outside (app a)))
                     (Session_UserID ru) PermissionManageSystem)\<rparr>) \<and>
      (\<forall>body. handleAdminUpdateUser e a (ru\<lparr>Body := body\<rparr>) = handleAdminUpdateUser e a ru))"
  by (simp add: handleAdminGetAllUsers_def handleAdminGetUser_def handleAdminDeleteUser_def
      handleAdminUpdateUser_def admin_check_eq errorResponse_def)

theorem admin_routes_refuse_non_admin_witness:
  "\<not> fst (HasPermissionTo (permissions sample_api)
             (store_GetAllUsers sample_env (outside (app sample_api)))
             (Session_UserID mallory_updates_alice) PermissionManageSystem) \<and>
   \<not> fst (HasPermissionTo (permissions sample_api)
             (store_GetAllUsers sample_env (outside (app sample_api)))
             (Session_UserID mallory_deletes_own_account) PermissionManageSystem) \<and>
   fst (handleAdminUpdateUser sample_env sample_api mallory_updates_alice)
     = ErrorResponse (ErrUnauthorized ''not authorized to access admin panel'') \<and>
   app (snd (handleAdminUpdateUser sample_env sample_api mallory_updates_alice)) = sample_app \<and>
   handleAdminUpdateUser sample_env sample_api
       (mallory_updates_alice\<lparr>Body := Malformed (ErrInternal ''unexpected end of JSON input'')\<rparr>)
     = handleAdminUpdateUser sample_env sample_api mallory_updates_alice \<and>
   fst (handleAdminDeleteUser sample_env sample_api mallory_deletes_own_account)
     = ErrorResponse (ErrUnauthorized ''not authorized to access admin panel'')"
proof -
  have p: "\<not> fst (HasPermissionTo (permissions sample_api)
             (store_GetAllUsers sample_env (outside (app sample_api)))
             (Session_UserID mallory_updates_alice) PermissionManageSystem)"
    by (simp add: HasPermissionTo_def sample_api_def sample_app_def sample_outside_def
        sample_env_def New_def alice_def bob_def mallory_def mallory_updates_alice_def)
  have q: "\<not> fst (HasPermissionTo (permissions sample_api)
             (store_GetAllUsers sample_env (outside (app sample_api)))
             (Session_UserID mallory_deletes_own_account) PermissionManageSystem)"
    by (simp add: HasPermissionTo_def sample_api_def sample_app_def sample_outside_def
        sample_env_def New_def alice_def bob_def mallory_def mallory_deletes_own_account_def)
  have a: "app sample_api = sample_app"
    by (simp add: sample_api_def)
  note t = admin_routes_refuse_non_admin
      [of sample_api sample_env mallory_deletes_own_account mallory_updates_alice]
  from t q have d: "handleAdminDeleteUser sample_env sample_api mallory_deletes_own_account =
        (ErrorResponse (ErrUnauthorized ''not authorized to access admin panel''),
         sample_api\<lparr>permissions :=
              snd (HasPermissionTo (permissions sample_api)
                     (store_GetAllUsers sample_env (outside (app sample_api)))
                     (Session_UserID mallory_deletes_own_account) PermissionManageSystem)\<rparr>)"
    by blast
  from t p have u: "handleAdminUpdateUser sample_env sample_api mallory_updates_alice =
        (ErrorResponse (ErrUnauthorized ''not authorized to access admin panel''),
         sample_api\<lparr>permissions :=
              snd (HasPermissionTo (permissions sample_api)
                     (store_GetAllUsers sample_env (outside (app sample_api)))
                     (Session_UserID mallory_updates_alice) PermissionManageSystem)\<rparr>)"
    by blast
  from t p have b: "handleAdminUpdateUser sample_env sample_api
       (mallory_updates_alice\<lparr>Body := Malformed (ErrInternal ''unexpected end of JSON input'')\<rparr>)
     = handleAdminUpdateUser sample_env sample_api mallory_updates_alice"
    by blast
  show ?thesis
    using p q a b by (simp add: d u)
qed

lemma strings_Contains_empty: "strings_Contains p []"
  by (induction p) auto

text \<open>
  C10. \<open>strings.Contains(p, "")\<close> holds for every string \<open>p\<close>, so the guard of the
  "password is required" branch is false for every decoded body: the password, the
  empty one included, is handed to \<open>UpdateUserPassword\<close>, whose result alone decides
  between the error response and 200.
\<close>

theorem handleAdminSetPassword_guard_never_fires:
  "strings_Contains p [] \<and>
   (Body r = Decodes requestData \<longrightarrow>
      outside (app (snd (handleAdminSetPassword e a r)))
        = snd (UpdateUserPassword e (Vars r ''username'')
                 (AdminSetPasswordData.Password requestData) (outside (app a))) \<and>
      fst (handleAdminSetPassword e a r)
        = (case fst (UpdateUserPassword e (Vars r ''username'')
                       (AdminSetPasswordData.Password requestData) (outside (app a))) of
             Some err \<Rightarrow> ErrorResponse err
           | None \<Rightarrow> JSONResponse 200 ''{}''))"
  by (auto simp: strings_Contains_empty handleAdminSetPassword_def Let_def set_outside_def
      LogRecord_def logger_Debug_def errorResponse_def jsonStringResponse_def
      split: prod.splits option.splits)

theorem handleAdminSetPassword_guard_never_fires_witness:
  "Body empty_password = Decodes \<lparr>AdminSetPasswordData.Password = []\<rparr> \<and>
   fst (handleAdminSetPassword sample_env sample_api empty_password) = JSONResponse 200 ''{}'' \<and>
   passwords (outside (app (snd (handleAdminSetPassword sample_env sample_api empty_password))))
     = [(''bob'', [])]"
proof -
  have b: "Body empty_password = Decodes \<lparr>AdminSetPasswordData.Password = []\<rparr>"
    by (simp add: empty_password_def)
  have u: "UpdateUserPassword sample_env (Vars empty_password ''username'')
             (AdminSetPasswordData.Password \<lparr>AdminSetPasswordData.Password = []\<rparr>)
             (outside (app sample_api))
      = (None, sample_outside\<lparr>passwords := [(''bob'', [])]\<rparr>)"
    by (simp add: sample_env_def sample_api_def sample_app_def sample_outside_def
        empty_password_def)
  show ?thesis
    using handleAdminSetPassword_guard_never_fires
      [of "[]" empty_password "\<lparr>AdminSetPasswordData.Password = []\<rparr>" sample_env sample_api]
      b u
    by simp
qed

end
